theory Spec2Isabelle
  imports Main "HOL-Library.Sublist"
begin

section \<open>Python values used by \<open>usrp3/tools/scripts/make.py\<close>\<close>

text \<open>
  Strings are byte lists. A Python exception that leaves a function is the left injection of
  the result; \<open>exit(n)\<close> raises \<open>SystemExit n\<close>.
\<close>

datatype exc = SystemExit int | KeyError | IOError | UnboundLocalError

definition nl :: string where
  "nl = [CHR 0x0A]"

definition bslash :: string where
  "bslash = [CHR 0x5C]"

definition squote :: string where
  "squote = [CHR 0x27]"

text \<open>\<open>str(n)\<close> and \<open>"{}".format(n)\<close> for a Python integer: decimal, with a minus sign.\<close>

definition digit_char :: "nat \<Rightarrow> char" where
  "digit_char d = ''0123456789'' ! d"

fun str_nat :: "nat \<Rightarrow> string" where
  "str_nat n = (if n < 10 then [digit_char n] else str_nat (n div 10) @ [digit_char (n mod 10)])"

declare str_nat.simps [simp del]

definition str_int :: "int \<Rightarrow> string" where
  "str_int i = (if i < 0 then ''-'' @ str_nat (nat (- i)) else str_nat (nat i))"

text \<open>\<open>str.lower()\<close> on ASCII text.\<close>

definition lower_char :: "char \<Rightarrow> char" where
  "lower_char c =
     (case map_of (zip ''ABCDEFGHIJKLMNOPQRSTUVWXYZ'' ''abcdefghijklmnopqrstuvwxyz'') c of
        None \<Rightarrow> c
      | Some l \<Rightarrow> l)"

definition lower :: "string \<Rightarrow> string" where
  "lower s = map lower_char s"

text \<open>
  \<open>str.replace(old, new)\<close>: every non-overlapping occurrence of \<open>old\<close>, scanning from the
  left, is replaced. With an empty \<open>old\<close> Python puts \<open>new\<close> before every character and
  at the end.
\<close>

function replace_scan :: "string \<Rightarrow> string \<Rightarrow> string \<Rightarrow> string" where
  "replace_scan old new [] = []"
| "replace_scan old new (c # cs) =
     (if old \<noteq> [] \<and> prefix old (c # cs)
      then new @ replace_scan old new (drop (length old) (c # cs))
      else c # replace_scan old new cs)"
  by pat_completeness auto
termination
  by (relation "measure (\<lambda>(old, new, s). length s)") auto

definition replace :: "string \<Rightarrow> string \<Rightarrow> string \<Rightarrow> string" where
  "replace s old new =
     (if old = [] then new @ concat (map (\<lambda>c. c # new) s) else replace_scan old new s)"

text \<open>
  \<open>re.findall(re.escape(lit), s, flags=re.MULTILINE)\<close>: the escaped pattern matches the
  text \<open>lit\<close> itself and nothing else, so the result is one copy of \<open>lit\<close> for every
  non-overlapping occurrence, found from the left. (An empty pattern matches at every position.)
\<close>

function findall_scan :: "string \<Rightarrow> string \<Rightarrow> string list" where
  "findall_scan lit [] = []"
| "findall_scan lit (c # cs) =
     (if lit \<noteq> [] \<and> prefix lit (c # cs)
      then lit # findall_scan lit (drop (length lit) (c # cs))
      else findall_scan lit cs)"
  by pat_completeness auto
termination
  by (relation "measure (\<lambda>(lit, s). length s)") auto

definition findall_escaped :: "string \<Rightarrow> string \<Rightarrow> string list" where
  "findall_escaped lit s =
     (if lit = [] then replicate (Suc (length s)) [] else findall_scan lit s)"

text \<open>\<open>re.escape\<close> of Python 2.7: a backslash before every character that is not a letter
  or a digit. Only the message printed for a missing pattern shows its result.\<close>

definition alnum :: "char \<Rightarrow> bool" where
  "alnum c \<longleftrightarrow>
     c \<in> set ''ABCDEFGHIJKLMNOPQRSTUVWXYZabcdefghijklmnopqrstuvwxyz0123456789''"

definition re_escape :: "string \<Rightarrow> string" where
  "re_escape s = concat (map (\<lambda>c. if alnum c then [c] else bslash @ [c]) s)"

text \<open>\<open>file.readlines()\<close>: the lines of the text, each with its newline; a last line
  without newline is kept as it is.\<close>

fun readlines_from :: "string \<Rightarrow> string \<Rightarrow> string list" where
  "readlines_from cur [] = (if cur = [] then [] else [cur])"
| "readlines_from cur (c # cs) =
     (if c = CHR 0x0A then (cur @ [c]) # readlines_from [] cs
      else readlines_from (cur @ [c]) cs)"

definition readlines :: "string \<Rightarrow> string list" where
  "readlines s = readlines_from [] s"

text \<open>\<open>os.path.join(a, *p)\<close> of \<open>posixpath\<close>.\<close>

fun path_join :: "string \<Rightarrow> string list \<Rightarrow> string" where
  "path_join path [] = path"
| "path_join path (b # p) =
     (if prefix ''/'' b then path_join b p
      else if path = [] \<or> suffix ''/'' path then path_join (path @ b) p
      else path_join (path @ ''/'' @ b) p)"

section \<open>The command line and the environment\<close>

text \<open>The namespace that \<open>setup_parser().parse_args()\<close> returns.\<close>

record args =
  include_dir :: "string list option"
  max_num_blocks :: int
  fill_with_fifos :: bool
  outfile :: "string option"
  device :: string
  target :: "string option"
  GUI :: bool
  blocks :: "string list"

text \<open>
  What the script reads and changes outside itself. Files are addressed by the path text that
  the script passes to \<open>open\<close>; \<open>stdout\<close> holds one entry per \<open>print\<close> call;
  \<open>glob\<close> and \<open>is_dir\<close> answer \<open>glob.glob\<close> and \<open>os.path.isdir\<close>; \<open>scriptpath\<close> is
  the value of \<open>get_scriptpath()\<close>; \<open>system_status\<close> is the value \<open>os.system\<close> returns
  for a command started in a directory (on POSIX the wait status: 256 times the exit code of a
  command that ends by itself), and \<open>commands\<close> logs those calls. Opening a file that
  does not exist for reading raises \<open>IOError\<close>; writes are taken to succeed, and what the
  external command does to the files is not part of the model.
\<close>

record world =
  files :: "string \<rightharpoonup> string"
  glob :: "string \<Rightarrow> string list"
  is_dir :: "string \<Rightarrow> bool"
  scriptpath :: string
  cwd :: string
  stdout :: "string list"
  system_status :: "string \<Rightarrow> string \<Rightarrow> int"
  commands :: "(string \<times> string) list"

definition py_print :: "string \<Rightarrow> world \<Rightarrow> world" where
  "py_print s w = w\<lparr>stdout := stdout w @ [s]\<rparr>"

definition write_file :: "string \<Rightarrow> string \<Rightarrow> world \<Rightarrow> world" where
  "write_file path text w = w\<lparr>files := (files w)(path \<mapsto> text)\<rparr>"

definition chdir :: "string \<Rightarrow> world \<Rightarrow> world" where
  "chdir path w = w\<lparr>cwd := path\<rparr>"

definition os_system :: "string \<Rightarrow> world \<Rightarrow> int \<times> world" where
  "os_system cmd w = (system_status w (cwd w) cmd, w\<lparr>commands := commands w @ [(cwd w, cmd)]\<rparr>)"

section \<open>The templates\<close>

definition joinlines :: "string list \<Rightarrow> string" where
  "joinlines ls = concat (map (\<lambda>l. l @ nl) ls)"

definition HEADER_TMPL :: "int \<Rightarrow> string" where
  "HEADER_TMPL num_ce = joinlines
     [''/////////////////////////////////////////////////////////'',
      ''// Auto-generated by gen_rfnoc_inst.py! Any changes'',
      ''// in this file will be overwritten the next time'',
      ''// this script is run.'',
      ''/////////////////////////////////////////////////////////'',
      ''localparam NUM_CE = '' @ str_int num_ce @ '';'',
      ''wire [NUM_CE*64-1:0] ce_flat_o_tdata, ce_flat_i_tdata;'',
      ''wire [63:0]          ce_o_tdata[0:NUM_CE-1], ce_i_tdata[0:NUM_CE-1];'',
      ''wire [NUM_CE-1:0]    ce_o_tlast, ce_o_tvalid, ce_o_tready, ce_i_tlast, ce_i_tvalid, ce_i_tready;'',
      ''wire [63:0]          ce_debug[0:NUM_CE-1];'',
      ''// Flattern CE tdata arrays'',
      ''genvar k;'',
      ''generate'',
      ''  for (k = 0; k < NUM_CE; k = k + 1) begin'',
      ''    assign ce_o_tdata[k] = ce_flat_o_tdata[k*64+63:k*64];'',
      ''    assign ce_flat_i_tdata[k*64+63:k*64] = ce_i_tdata[k];'',
      ''  end'',
      ''endgenerate'',
      ''wire ce_clk = radio_clk;'',
      ''wire ce_rst = radio_rst;'']"

definition BLOCK_TMPL :: "string \<Rightarrow> string \<Rightarrow> int \<Rightarrow> string" where
  "BLOCK_TMPL blockname instname n = nl @ joinlines
     [''noc_block_'' @ blockname @ '' '' @ instname @ '' ('',
      ''  .bus_clk(bus_clk), .bus_rst(bus_rst),'',
      ''  .ce_clk(ce_clk), .ce_rst(ce_rst),'',
      ''  .i_tdata(ce_o_tdata['' @ str_int n @ '']), .i_tlast(ce_o_tlast['' @ str_int n
        @ '']), .i_tvalid(ce_o_tvalid['' @ str_int n @ '']), .i_tready(ce_o_tready[''
        @ str_int n @ '']),'',
      ''  .o_tdata(ce_i_tdata['' @ str_int n @ '']), .o_tlast(ce_i_tlast['' @ str_int n
        @ '']), .o_tvalid(ce_i_tvalid['' @ str_int n @ '']), .o_tready(ce_i_tready[''
        @ str_int n @ '']),'',
      ''  .debug(ce_debug['' @ str_int n @ ''])'',
      '');'']"

definition FILL_FIFO_TMPL :: "int \<Rightarrow> string" where
  "FILL_FIFO_TMPL fifo_start = nl @ joinlines
     [''// Fill remaining crossbar ports with loopback FIFOs'',
      ''genvar n;'',
      ''generate'',
      ''  for (n = '' @ str_int fifo_start @ ''; n < NUM_CE; n = n + 1) begin'',
      ''    noc_block_axi_fifo_loopback inst_noc_block_axi_fifo_loopback ('',
      ''      .bus_clk(bus_clk), .bus_rst(bus_rst),'',
      ''      .ce_clk(ce_clk), .ce_rst(ce_rst),'',
      ''      .i_tdata(ce_o_tdata[n]), .i_tlast(ce_o_tlast[n]), .i_tvalid(ce_o_tvalid[n]), .i_tready(ce_o_tready[n]),'',
      ''      .o_tdata(ce_i_tdata[n]), .o_tlast(ce_i_tlast[n]), .o_tvalid(ce_i_tvalid[n]), .o_tready(ce_i_tready[n]),'',
      ''      .debug(ce_debug[n])'',
      ''    );'',
      ''  end'',
      ''endgenerate'']"

section \<open>\<open>create_vfiles\<close>\<close>

text \<open>
  The state of the \<open>for i, block in enumerate(blocks)\<close> loop: the dictionary
  \<open>block_count\<close>, the text \<open>vfile\<close> built so far and the world (for the prints). The
  field \<open>instnames\<close> records the value of \<open>instname\<close> of every iteration, in order; no
  other field depends on it.
\<close>

record loop_state =
  block_count :: "string \<rightharpoonup> int"
  vfile :: string
  instnames :: "string list"
  lworld :: world

definition instname_format :: "string \<Rightarrow> int \<Rightarrow> string" where
  "instname_format block c = ''inst_'' @ block @ (if c = 1 then [] else str_int c)"

fun block_loop :: "(nat \<times> string) list \<Rightarrow> loop_state \<Rightarrow> exc \<times> world + loop_state" where
  "block_loop [] s = Inr s"
| "block_loop ((i, block) # rest) s =
     (case block_count s block of
        None \<Rightarrow> Inl (KeyError, lworld s)
      | Some c \<Rightarrow>
          let bc = (block_count s)(block \<mapsto> c + 1);
              instname = instname_format block (c + 1)
          in block_loop rest
               \<lparr>block_count = bc,
                vfile = vfile s @ BLOCK_TMPL block instname (int i),
                instnames = instnames s @ [instname],
                lworld = py_print (''    * '' @ block) (lworld s)\<rparr>)"

text \<open>\<open>{k: 0 for k in set(blocks)}\<close>\<close>

definition initial_count :: "string list \<Rightarrow> (string \<rightharpoonup> int)" where
  "initial_count bs = (\<lambda>k. if k \<in> set bs then Some 0 else None)"

text \<open>Lines 134 to 145 of \<open>create_vfiles\<close>: from \<open>num_ce\<close> to the end of the loop.\<close>

definition create_vfiles_loop :: "args \<Rightarrow> world \<Rightarrow> exc \<times> world + loop_state" where
  "create_vfiles_loop a w =
     (let num_ce = (if \<not> fill_with_fifos a then int (length (blocks a)) else max_num_blocks a);
          w1 = py_print ''--Using the following blocks to generate image:'' w
      in block_loop (enumerate 0 (blocks a))
           \<lparr>block_count = initial_count (blocks a),
            vfile = HEADER_TMPL num_ce,
            instnames = [],
            lworld = w1\<rparr>)"

definition create_vfiles :: "args \<Rightarrow> world \<Rightarrow> (exc + string) \<times> world" where
  "create_vfiles a w =
     (if length (blocks a) = 0
      then (Inl (SystemExit 1), py_print ''[GEN_RFNOC_INST ERROR] No blocks specified!'' w)
      else if int (length (blocks a)) > max_num_blocks a
      then (Inl (SystemExit 1),
            py_print (''[GEN_RFNOC_INST ERROR] Trying to connect ''
                      @ str_int (int (length (blocks a)))
                      @ '' blocks, max is '' @ str_int (max_num_blocks a)) w)
      else (case create_vfiles_loop a w of
              Inl (e, w1) \<Rightarrow> (Inl e, w1)
            | Inr s \<Rightarrow>
                (Inr (if fill_with_fifos a
                      then vfile s @ FILL_FIFO_TMPL (int (length (blocks a)))
                      else vfile s),
                 lworld s)))"

section \<open>Devices and targets\<close>

definition device_dict :: "string \<Rightarrow> exc + string" where
  "device_dict d =
     (case map_of [(''x300'', ''x300''), (''x310'', ''x300''), (''e300'', ''e300''),
                   (''e310'', ''e300'')] d of
        None \<Rightarrow> Inl KeyError
      | Some dir \<Rightarrow> Inr dir)"

definition dtarget :: "args \<Rightarrow> exc + string" where
  "dtarget a =
     (case target a of
        None \<Rightarrow>
          (case map_of [(''x300'', ''X300_RFNOC_HG''), (''x310'', ''X310_RFNOC_HG''),
                        (''e310'', ''E310_RFNOC_HLS'')] (device a) of
             None \<Rightarrow> Inl KeyError
           | Some t \<Rightarrow> Inr t)
      | Some t \<Rightarrow> Inr t)"

section \<open>Writing the generated file\<close>

text \<open>\<open>'%s' % args.target\<close> prints \<open>None\<close> when no target was given.\<close>

definition str_opt :: "string option \<Rightarrow> string" where
  "str_opt t = (case t of None \<Rightarrow> ''None'' | Some s \<Rightarrow> s)"

definition file_generator :: "args \<Rightarrow> string \<Rightarrow> world \<Rightarrow> (exc + unit) \<times> world" where
  "file_generator a vf w =
     (let fpga_utils_path = scriptpath w;
          w1 = py_print (''Adding CE instantiation file for '' @ squote @ str_opt (target a)
                         @ squote) w
      in case device_dict (lower (device a)) of
           Inl e \<Rightarrow> (Inl e, w1)
         | Inr dir \<Rightarrow>
             let path_to_file = fpga_utils_path @ ''/../../top/'' @ dir
                                @ ''/rfnoc_ce_auto_inst_'' @ device a @ ''.v''
             in (case outfile a of
                   None \<Rightarrow> (Inr (), write_file path_to_file vf w1)
                 | Some out \<Rightarrow> (Inr (), write_file out vf w1)))"

section \<open>Merging the include directories\<close>

definition checkdir_v :: "string \<Rightarrow> world \<Rightarrow> (exc + unit) \<times> world" where
  "checkdir_v inc_dir w =
     (let nfiles = glob w (inc_dir @ ''*.v'')
      in if length nfiles = 0
         then (Inl (SystemExit 0),
               py_print ''[ERROR] No verilog files found in the given directory'' w)
         else (Inr (), py_print ''Verilog sources found!'' w))"

definition readfile :: "string \<Rightarrow> world \<Rightarrow> exc + string list" where
  "readfile f w =
     (case files w f of
        None \<Rightarrow> Inl IOError
      | Some text \<Rightarrow> Inr (readlines text))"

definition compare :: "string \<Rightarrow> string \<Rightarrow> world \<Rightarrow> exc + string list" where
  "compare file1 file2 w =
     (case files w file1 of
        None \<Rightarrow> Inl IOError
      | Some c1 \<Rightarrow>
          (case files w file2 of
             None \<Rightarrow> Inl IOError
           | Some c2 \<Rightarrow>
               let text1 = readlines c1; text2 = readlines c2
               in Inr (filter (\<lambda>item. item \<notin> set text2) text1)))"

text \<open>
  The texts that \<open>prefixpattern\<close> and \<open>linepattern\<close> escape: \<open>$(addprefix\<close>, the
  directory and a comma, and \<open>RFNOC_OOT_SRCS =\<close>; each ends in a space, a backslash and a
  newline.
\<close>

definition prefix_text :: "string \<Rightarrow> string" where
  "prefix_text dirs = ''$(addprefix '' @ dirs @ '', '' @ bslash @ nl"

definition line_text :: string where
  "line_text = ''RFNOC_OOT_SRCS = '' @ bslash @ nl"

text \<open>
  The loop \<open>for dirs in args.include_dir\<close> of \<open>append_item_into_file\<close>. The
  \<open>return\<close> taken when neither pattern is found leaves the whole function, so the
  directories after it are not visited.
\<close>

fun include_loop :: "string \<Rightarrow> string list \<Rightarrow> world \<Rightarrow> (exc + unit) \<times> world" where
  "include_loop target_dir [] w = (Inr (), w)"
| "include_loop target_dir (dirs # rest) w =
     (case checkdir_v dirs w of
        (Inl e, w1) \<Rightarrow> (Inl e, w1)
      | (Inr u, w1) \<Rightarrow>
          let oot_srcs_file = path_join dirs [''Makefile.srcs''];
              dest_srcs_file = path_join (scriptpath w1)
                                 [''..'', ''..'', ''top'', target_dir, ''Makefile.srcs''];
              prefixlit = prefix_text dirs;
              linelit = line_text
          in (case files w1 dest_srcs_file of
                None \<Rightarrow> (Inl IOError, w1)
              | Some oldfile \<Rightarrow>
                  let prefixlines = findall_escaped prefixlit oldfile
                  in if length prefixlines = 0
                     then
                       (let lines = findall_escaped linelit oldfile
                        in if length lines = 0
                           then (Inr (),
                                 py_print (''Pattern '' @ re_escape linelit
                                           @ '' not found. Could not write '' @ oldfile
                                           @ '' file'') w1)
                           else
                             (case readfile oot_srcs_file w1 of
                                Inl e \<Rightarrow> (Inl e, w1)
                              | Inr ls \<Rightarrow>
                                  let last_line = last lines;
                                      srcs = concat ls;
                                      newfile = replace oldfile last_line (last_line @ srcs)
                                  in include_loop target_dir rest
                                       (write_file dest_srcs_file newfile w1)))
                     else
                       (case compare oot_srcs_file dest_srcs_file w1 of
                          Inl e \<Rightarrow> (Inl e, w1)
                        | Inr ls \<Rightarrow>
                            let last_line = last prefixlines;
                                srcs = concat ls;
                                newfile = replace oldfile last_line (last_line @ srcs)
                            in include_loop target_dir rest
                                 (write_file dest_srcs_file newfile w1))))"

definition append_item_into_file :: "args \<Rightarrow> world \<Rightarrow> (exc + unit) \<times> world" where
  "append_item_into_file a w =
     (case device_dict (lower (device a)) of
        Inl e \<Rightarrow> (Inl e, w)
      | Inr target_dir \<Rightarrow>
          (case include_dir a of
             None \<Rightarrow> (Inr (), w)
           | Some ds \<Rightarrow> include_loop target_dir ds w))"

section \<open>The build\<close>

definition build :: "args \<Rightarrow> world \<Rightarrow> (exc + int) \<times> world" where
  "build a w =
     (let cwd0 = scriptpath w
      in case device_dict (lower (device a)) of
           Inl e \<Rightarrow> (Inl e, w)
         | Inr target_dir \<Rightarrow>
             let build_dir = path_join cwd0 [''..'', ''..'', ''top'', target_dir]
             in if is_dir w build_dir
                then
                  (let w1 = py_print (''changing temporarily working directory to ''
                                      @ build_dir) w;
                       w2 = chdir build_dir w1
                   in case dtarget a of
                        Inl e \<Rightarrow> (Inl e, w2)
                      | Inr t \<Rightarrow>
                          let make_cmd = ''source ./setupenv.sh && make '' @ t;
                              make_cmd = (if GUI a then make_cmd @ '' GUI=1'' else make_cmd);
                              (ret_val, w3) = os_system make_cmd w2;
                              w4 = chdir cwd0 w3
                          in (Inr ret_val, w4))
                else (Inl UnboundLocalError, w))"

section \<open>\<open>main\<close> and the process\<close>

definition main :: "args \<Rightarrow> world \<Rightarrow> (exc + int) \<times> world" where
  "main a w =
     (case create_vfiles a w of
        (Inl e, w1) \<Rightarrow> (Inl e, w1)
      | (Inr vf, w1) \<Rightarrow>
          (case file_generator a vf w1 of
             (Inl e, w2) \<Rightarrow> (Inl e, w2)
           | (Inr u, w2) \<Rightarrow>
               (case append_item_into_file a w2 of
                  (Inl e, w3) \<Rightarrow> (Inl e, w3)
                | (Inr u', w3) \<Rightarrow>
                    (case outfile a of
                       None \<Rightarrow> build a w3
                     | Some out \<Rightarrow>
                         (Inr 0, py_print (''Instantiation file generated at '' @ out) w3)))))"

text \<open>
  \<open>exit(main())\<close>: the process ends with the value that \<open>main\<close> returned, or with the
  code of the \<open>exit\<close> call that stopped it; the system keeps the low 8 bits of that number.
  An exception nobody catches ends the process with status 1.
\<close>

definition exit_status :: "exc + int \<Rightarrow> int" where
  "exit_status r =
     (case r of
        Inr v \<Rightarrow> v mod 256
      | Inl (SystemExit c) \<Rightarrow> c mod 256
      | Inl e \<Rightarrow> 1)"

definition script :: "args \<Rightarrow> world \<Rightarrow> int \<times> world" where
  "script a w = (let (r, w') = main a w in (exit_status r, w'))"

section \<open>Sample inputs\<close>

text \<open>
  The values the parser gives when an option is absent. (With no positional argument
  \<open>args.blocks\<close> is the empty default, of length 0.)
\<close>

definition default_args :: args where
  "default_args =
     \<lparr>include_dir = None, max_num_blocks = 10, fill_with_fifos = False, outfile = None,
      device = ''x310'', target = None, GUI = False, blocks = []\<rparr>"

text \<open>
  A checkout under \<open>/fpga\<close> used from \<open>/home/user\<close>, with one out-of-tree module in
  \<open>/oot/\<close>: the x300 source list holds \<open>dest_text\<close>, the module's source list holds
  \<open>oot_text\<close>, and \<open>os.system\<close> returns \<open>status\<close> for the external build command.
\<close>

definition sample_dest :: string where
  "sample_dest = ''/fpga/usrp3/tools/scripts/../../top/x300/Makefile.srcs''"

definition sample_world :: "string \<Rightarrow> string \<Rightarrow> int \<Rightarrow> world" where
  "sample_world dest_text oot_text status =
     \<lparr>files = [sample_dest \<mapsto> dest_text, ''/oot/Makefile.srcs'' \<mapsto> oot_text],
      glob = (\<lambda>p. if p = ''/oot/*.v'' then [''/oot/noc_block_x.v''] else []),
      is_dir = (\<lambda>p. p = ''/fpga/usrp3/tools/scripts/../../top/x300''),
      scriptpath = ''/fpga/usrp3/tools/scripts'',
      cwd = ''/home/user'',
      stdout = [],
      system_status = (\<lambda>dir cmd. status),
      commands = []\<rparr>"

definition oot_args :: args where
  "oot_args = default_args\<lparr>include_dir := Some [''/oot/''], blocks := [''fft'']\<rparr>"

section \<open>The block loop\<close>

text \<open>
  The loop over \<open>enumerate(blocks)\<close>, started after the entries \<open>done\<close> with the counts
  of \<open>done\<close> in the dictionary, never misses a key, and gives entry \<open>i\<close> the name made
  from the number of times its block name occurs among the entries \<open>0..i\<close>.
\<close>

lemma count_list_snoc: "count_list (xs @ [b]) k = count_list xs k + (if k = b then 1 else 0)"
  by (induction xs) auto

lemma block_loop_closed:
  assumes "bs = done @ rest"
    and "block_count s = (\<lambda>k. if k \<in> set bs then Some (int (count_list done k)) else None)"
  shows "block_loop (enumerate (length done) rest) s =
           Inr \<lparr>block_count = (\<lambda>k. if k \<in> set bs then Some (int (count_list bs k)) else None),
                vfile = vfile s @ concat (map (\<lambda>i. BLOCK_TMPL (bs ! i)
                          (instname_format (bs ! i) (int (count_list (take (Suc i) bs) (bs ! i))))
                          (int i)) [length done..<length bs]),
                instnames = instnames s @ map (\<lambda>i. instname_format (bs ! i)
                          (int (count_list (take (Suc i) bs) (bs ! i)))) [length done..<length bs],
                lworld = (lworld s)\<lparr>stdout := stdout (lworld s) @ map (\<lambda>b. ''    * '' @ b) rest\<rparr>\<rparr>"
  using assms
proof (induction rest arbitrary: "done" s)
  case Nil
  then show ?case by (cases s) auto
next
  case (Cons b rest)
  let ?s' = "\<lparr>block_count = (block_count s)(b \<mapsto> int (count_list done b) + 1),
                vfile = vfile s @ BLOCK_TMPL b (instname_format b (int (count_list done b) + 1)) (int (length done)),
                instnames = instnames s @ [instname_format b (int (count_list done b) + 1)],
                lworld = py_print (''    * '' @ b) (lworld s)\<rparr>"
  have bs: "bs = (done @ [b]) @ rest" using Cons.prems by simp
  have bc: "block_count ?s' = (\<lambda>k. if k \<in> set bs then Some (int (count_list (done @ [b]) k)) else None)"
    using Cons.prems by (auto simp: fun_eq_iff count_list_snoc)
  have step: "block_loop (enumerate (length done) (b # rest)) s = block_loop (enumerate (length (done @ [b])) rest) ?s'"
    using Cons.prems by (simp add: Let_def)
  have tk: "take (Suc (length done)) bs = done @ [b]" using Cons.prems by simp
  have nth: "bs ! length done = b" using Cons.prems by simp
  have "length done < length bs" using Cons.prems by simp
  then have upt: "[length done..<length bs] = length done # [Suc (length done)..<length bs]"
    by (rule upt_conv_Cons)
  show ?case
    unfolding step Cons.IH[OF bs bc]
    by (simp add: upt tk nth count_list_snoc py_print_def add.commute)
qed

lemma create_vfiles_loop_closed:
  "create_vfiles_loop a w =
     Inr \<lparr>block_count = (\<lambda>k. if k \<in> set (blocks a)
                             then Some (int (count_list (blocks a) k)) else None),
          vfile = HEADER_TMPL (if fill_with_fifos a then max_num_blocks a
                               else int (length (blocks a)))
                  @ concat (map (\<lambda>i. BLOCK_TMPL (blocks a ! i)
                      (instname_format (blocks a ! i)
                         (int (count_list (take (Suc i) (blocks a)) (blocks a ! i))))
                      (int i)) [0..<length (blocks a)]),
          instnames = map (\<lambda>i. instname_format (blocks a ! i)
                         (int (count_list (take (Suc i) (blocks a)) (blocks a ! i))))
                        [0..<length (blocks a)],
          lworld = w\<lparr>stdout := stdout w @ ''--Using the following blocks to generate image:''
                              # map (\<lambda>b. ''    * '' @ b) (blocks a)\<rparr>\<rparr>"
proof -
  have "block_loop (enumerate (length ([] :: string list)) (blocks a))
          \<lparr>block_count = initial_count (blocks a),
           vfile = HEADER_TMPL (if \<not> fill_with_fifos a then int (length (blocks a))
                                else max_num_blocks a),
           instnames = [],
           lworld = py_print ''--Using the following blocks to generate image:'' w\<rparr> = Inr
          \<lparr>block_count = (\<lambda>k. if k \<in> set (blocks a)
                             then Some (int (count_list (blocks a) k)) else None),
          vfile = HEADER_TMPL (if \<not> fill_with_fifos a then int (length (blocks a))
                                else max_num_blocks a)
                  @ concat (map (\<lambda>i. BLOCK_TMPL (blocks a ! i)
                      (instname_format (blocks a ! i)
                         (int (count_list (take (Suc i) (blocks a)) (blocks a ! i))))
                      (int i)) [0..<length (blocks a)]),
          instnames = map (\<lambda>i. instname_format (blocks a ! i)
                         (int (count_list (take (Suc i) (blocks a)) (blocks a ! i))))
                        [0..<length (blocks a)],
          lworld = w\<lparr>stdout := stdout w @ ''--Using the following blocks to generate image:''
                              # map (\<lambda>b. ''    * '' @ b) (blocks a)\<rparr>\<rparr>"
    by (subst block_loop_closed [where bs = "blocks a"])
       (simp_all add: initial_count_def py_print_def cong: if_cong)
  then show ?thesis
    by (simp add: create_vfiles_loop_def Let_def)
qed

lemma count_take_pos: "i < length bs \<Longrightarrow> 1 \<le> count_list (take (Suc i) bs) (bs ! i)"
  by (simp add: take_Suc_conv_app_nth count_list_snoc)

text \<open>
  Claim C2. In every block list, the instance name of entry \<open>i\<close> is \<open>inst_\<close> and the block
  name, followed by nothing when the entry is the first occurrence of its name, and by the
  decimal number \<open>k\<close> when it is the \<open>k\<close>-th occurrence, \<open>k \<ge> 2\<close>. The number of the
  occurrence is the count of the name among the entries \<open>0..i\<close>, so later occurrences of a
  name get larger numbers, the second one the number 2.
\<close>

theorem instname_occurrence_suffix:
  assumes "i < length (blocks a)"
  shows "\<exists>s. create_vfiles_loop a w = Inr s
           \<and> length (instnames s) = length (blocks a)
           \<and> 1 \<le> count_list (take (Suc i) (blocks a)) (blocks a ! i)
           \<and> instnames s ! i =
               ''inst_'' @ blocks a ! i
               @ (if count_list (take (Suc i) (blocks a)) (blocks a ! i) = 1 then []
                  else str_int (int (count_list (take (Suc i) (blocks a)) (blocks a ! i))))"
  using assms count_take_pos [OF assms]
  by (simp add: create_vfiles_loop_closed instname_format_def)

theorem instname_occurrence_suffix_witness:
  "(2::nat) < length (blocks (default_args\<lparr>blocks := [''fft'', ''ddc'', ''fft'']\<rparr>))
   \<and> (\<exists>s. create_vfiles_loop (default_args\<lparr>blocks := [''fft'', ''ddc'', ''fft'']\<rparr>)
              (sample_world [] [] 0) = Inr s
          \<and> instnames s ! 0 = ''inst_fft'' \<and> instnames s ! 1 = ''inst_ddc''
          \<and> instnames s ! 2 = ''inst_fft2'')"
  using instname_occurrence_suffix [of 0 "default_args\<lparr>blocks := [''fft'', ''ddc'', ''fft'']\<rparr>" "sample_world [] [] 0"]
    instname_occurrence_suffix [of 1 "default_args\<lparr>blocks := [''fft'', ''ddc'', ''fft'']\<rparr>" "sample_world [] [] 0"]
    instname_occurrence_suffix [of 2 "default_args\<lparr>blocks := [''fft'', ''ddc'', ''fft'']\<rparr>" "sample_world [] [] 0"]
  by (auto simp: default_args_def str_int_def str_nat.simps digit_char_def numeral_2_eq_2)

text \<open>
  Claim C8, as stated, fails: without \<open>--fill-with-fifos\<close> the header does not size
  \<open>NUM_CE\<close> to the maximum. One block with the maximum 10 gives \<open>NUM_CE = 1\<close>.
\<close>

theorem num_ce_without_fill_is_block_count:
  "max_num_blocks (default_args\<lparr>blocks := [''fft'']\<rparr>) = 10
   \<and> \<not> fill_with_fifos (default_args\<lparr>blocks := [''fft'']\<rparr>)
   \<and> fst (create_vfiles (default_args\<lparr>blocks := [''fft'']\<rparr>) (sample_world [] [] 0)) =
       Inr (''/////////////////////////////////////////////////////////\<newline>''
            @ ''// Auto-generated by gen_rfnoc_inst.py! Any changes\<newline>''
            @ ''// in this file will be overwritten the next time\<newline>''
            @ ''// this script is run.\<newline>''
            @ ''/////////////////////////////////////////////////////////\<newline>''
            @ ''localparam NUM_CE = 1;\<newline>''
            @ ''wire [NUM_CE*64-1:0] ce_flat_o_tdata, ce_flat_i_tdata;\<newline>''
            @ ''wire [63:0]          ce_o_tdata[0:NUM_CE-1], ce_i_tdata[0:NUM_CE-1];\<newline>''
            @ ''wire [NUM_CE-1:0]    ce_o_tlast, ce_o_tvalid, ce_o_tready, ce_i_tlast, ce_i_tvalid, ce_i_tready;\<newline>''
            @ ''wire [63:0]          ce_debug[0:NUM_CE-1];\<newline>''
            @ ''// Flattern CE tdata arrays\<newline>''
            @ ''genvar k;\<newline>''
            @ ''generate\<newline>''
            @ ''  for (k = 0; k < NUM_CE; k = k + 1) begin\<newline>''
            @ ''    assign ce_o_tdata[k] = ce_flat_o_tdata[k*64+63:k*64];\<newline>''
            @ ''    assign ce_flat_i_tdata[k*64+63:k*64] = ce_i_tdata[k];\<newline>''
            @ ''  end\<newline>''
            @ ''endgenerate\<newline>''
            @ ''wire ce_clk = radio_clk;\<newline>''
            @ ''wire ce_rst = radio_rst;\<newline>''
            @ ''\<newline>''
            @ ''noc_block_fft inst_fft (\<newline>''
            @ ''  .bus_clk(bus_clk), .bus_rst(bus_rst),\<newline>''
            @ ''  .ce_clk(ce_clk), .ce_rst(ce_rst),\<newline>''
            @ ''  .i_tdata(ce_o_tdata[0]), .i_tlast(ce_o_tlast[0]), .i_tvalid(ce_o_tvalid[0]), .i_tready(ce_o_tready[0]),\<newline>''
            @ ''  .o_tdata(ce_i_tdata[0]), .o_tlast(ce_i_tlast[0]), .o_tvalid(ce_i_tvalid[0]), .o_tready(ce_i_tready[0]),\<newline>''
            @ ''  .debug(ce_debug[0])\<newline>''
            @ '');\<newline>'')"
  by (simp add: create_vfiles_def create_vfiles_loop_closed HEADER_TMPL_def BLOCK_TMPL_def
        joinlines_def nl_def instname_format_def str_int_def str_nat.simps digit_char_def
        default_args_def upt_rec)

text \<open>
  Claim C8, amended. For a block list of at least one and at most \<open>max_num_blocks\<close> entries,
  \<open>create_vfiles\<close> returns the header with \<open>NUM_CE\<close> declared as \<open>max_num_blocks\<close> when
  filling is requested and as the number of blocks otherwise; then one instantiation per entry,
  in order, of \<open>noc_block_\<close> and the block name, under the instance name of the entry, wired
  to the index of the entry; and, when filling is requested, the loop that instantiates
  \<open>noc_block_axi_fifo_loopback\<close> for the indices from the number of blocks up to
  \<open>NUM_CE - 1\<close>, the maximum minus one. The text is given in full.
\<close>

theorem create_vfiles_renders:
  assumes "blocks a \<noteq> []" and "int (length (blocks a)) \<le> max_num_blocks a"
  shows "create_vfiles a w =
           (Inr ((''/////////////////////////////////////////////////////////\<newline>''
           @ ''// Auto-generated by gen_rfnoc_inst.py! Any changes\<newline>''
           @ ''// in this file will be overwritten the next time\<newline>''
           @ ''// this script is run.\<newline>''
           @ ''/////////////////////////////////////////////////////////\<newline>''
           @ ''localparam NUM_CE = ''
             @ str_int (if fill_with_fifos a then max_num_blocks a
                           else int (length (blocks a)))
             @ '';\<newline>''
           @ ''wire [NUM_CE*64-1:0] ce_flat_o_tdata, ce_flat_i_tdata;\<newline>''
           @ ''wire [63:0]          ce_o_tdata[0:NUM_CE-1], ce_i_tdata[0:NUM_CE-1];\<newline>''
           @ ''wire [NUM_CE-1:0]    ce_o_tlast, ce_o_tvalid, ce_o_tready, ce_i_tlast, ce_i_tvalid, ce_i_tready;\<newline>''
           @ ''wire [63:0]          ce_debug[0:NUM_CE-1];\<newline>''
           @ ''// Flattern CE tdata arrays\<newline>''
           @ ''genvar k;\<newline>''
           @ ''generate\<newline>''
           @ ''  for (k = 0; k < NUM_CE; k = k + 1) begin\<newline>''
           @ ''    assign ce_o_tdata[k] = ce_flat_o_tdata[k*64+63:k*64];\<newline>''
           @ ''    assign ce_flat_i_tdata[k*64+63:k*64] = ce_i_tdata[k];\<newline>''
           @ ''  end\<newline>''
           @ ''endgenerate\<newline>''
           @ ''wire ce_clk = radio_clk;\<newline>''
           @ ''wire ce_rst = radio_rst;\<newline>'')
                 @ concat (map (\<lambda>i.
                 ''\<newline>''
                 @ ''noc_block_'' @ blocks a ! i @ '' ''
                   @ (''inst_'' @ blocks a ! i
                       @ (if count_list (take (Suc i) (blocks a)) (blocks a ! i) = 1 then []
                          else str_int (int (count_list (take (Suc i) (blocks a)) (blocks a ! i)))))
                   @ '' (\<newline>''
                 @ ''  .bus_clk(bus_clk), .bus_rst(bus_rst),\<newline>''
                 @ ''  .ce_clk(ce_clk), .ce_rst(ce_rst),\<newline>''
                 @ ''  .i_tdata(ce_o_tdata['' @ str_int (int i) @ '']), .i_tlast(ce_o_tlast[''
                   @ str_int (int i) @ '']), .i_tvalid(ce_o_tvalid['' @ str_int (int i)
                   @ '']), .i_tready(ce_o_tready['' @ str_int (int i) @ '']),\<newline>''
                 @ ''  .o_tdata(ce_i_tdata['' @ str_int (int i) @ '']), .o_tlast(ce_i_tlast[''
                   @ str_int (int i) @ '']), .o_tvalid(ce_i_tvalid['' @ str_int (int i)
                   @ '']), .o_tready(ce_i_tready['' @ str_int (int i) @ '']),\<newline>''
                 @ ''  .debug(ce_debug['' @ str_int (int i) @ ''])\<newline>''
                 @ '');\<newline>'')
                     [0..<length (blocks a)])
                 @ (if fill_with_fifos a
                    then
                 ''\<newline>''
                 @ ''// Fill remaining crossbar ports with loopback FIFOs\<newline>''
                 @ ''genvar n;\<newline>''
                 @ ''generate\<newline>''
                 @ ''  for (n = '' @ str_int (int (length (blocks a)))
                   @ ''; n < NUM_CE; n = n + 1) begin\<newline>''
                 @ ''    noc_block_axi_fifo_loopback inst_noc_block_axi_fifo_loopback (\<newline>''
                 @ ''      .bus_clk(bus_clk), .bus_rst(bus_rst),\<newline>''
                 @ ''      .ce_clk(ce_clk), .ce_rst(ce_rst),\<newline>''
                 @ ''      .i_tdata(ce_o_tdata[n]), .i_tlast(ce_o_tlast[n]), .i_tvalid(ce_o_tvalid[n]), .i_tready(ce_o_tready[n]),\<newline>''
                 @ ''      .o_tdata(ce_i_tdata[n]), .o_tlast(ce_i_tlast[n]), .o_tvalid(ce_i_tvalid[n]), .o_tready(ce_i_tready[n]),\<newline>''
                 @ ''      .debug(ce_debug[n])\<newline>''
                 @ ''    );\<newline>''
                 @ ''  end\<newline>''
                 @ ''endgenerate\<newline>''
                    else [])),
            w\<lparr>stdout := stdout w @ ''--Using the following blocks to generate image:''
                              # map (\<lambda>b. ''    * '' @ b) (blocks a)\<rparr>)"
  using assms
  by (simp add: create_vfiles_def create_vfiles_loop_closed HEADER_TMPL_def BLOCK_TMPL_def
        FILL_FIFO_TMPL_def joinlines_def nl_def instname_format_def)

theorem create_vfiles_renders_witness:
  "blocks (default_args\<lparr>blocks := [''fft'', ''fft''], fill_with_fifos := True\<rparr>) \<noteq> []
   \<and> int (length (blocks (default_args\<lparr>blocks := [''fft'', ''fft''], fill_with_fifos := True\<rparr>)))
       \<le> max_num_blocks (default_args\<lparr>blocks := [''fft'', ''fft''], fill_with_fifos := True\<rparr>)
   \<and> fst (create_vfiles (default_args\<lparr>blocks := [''fft'', ''fft''], fill_with_fifos := True\<rparr>)
             (sample_world [] [] 0)) =
       Inr (''/////////////////////////////////////////////////////////\<newline>''
            @ ''// Auto-generated by gen_rfnoc_inst.py! Any changes\<newline>''
            @ ''// in this file will be overwritten the next time\<newline>''
            @ ''// this script is run.\<newline>''
            @ ''/////////////////////////////////////////////////////////\<newline>''
            @ ''localparam NUM_CE = 10;\<newline>''
            @ ''wire [NUM_CE*64-1:0] ce_flat_o_tdata, ce_flat_i_tdata;\<newline>''
            @ ''wire [63:0]          ce_o_tdata[0:NUM_CE-1], ce_i_tdata[0:NUM_CE-1];\<newline>''
            @ ''wire [NUM_CE-1:0]    ce_o_tlast, ce_o_tvalid, ce_o_tready, ce_i_tlast, ce_i_tvalid, ce_i_tready;\<newline>''
            @ ''wire [63:0]          ce_debug[0:NUM_CE-1];\<newline>''
            @ ''// Flattern CE tdata arrays\<newline>''
            @ ''genvar k;\<newline>''
            @ ''generate\<newline>''
            @ ''  for (k = 0; k < NUM_CE; k = k + 1) begin\<newline>''
            @ ''    assign ce_o_tdata[k] = ce_flat_o_tdata[k*64+63:k*64];\<newline>''
            @ ''    assign ce_flat_i_tdata[k*64+63:k*64] = ce_i_tdata[k];\<newline>''
            @ ''  end\<newline>''
            @ ''endgenerate\<newline>''
            @ ''wire ce_clk = radio_clk;\<newline>''
            @ ''wire ce_rst = radio_rst;\<newline>''
            @ ''\<newline>''
            @ ''noc_block_fft inst_fft (\<newline>''
            @ ''  .bus_clk(bus_clk), .bus_rst(bus_rst),\<newline>''
            @ ''  .ce_clk(ce_clk), .ce_rst(ce_rst),\<newline>''
            @ ''  .i_tdata(ce_o_tdata[0]), .i_tlast(ce_o_tlast[0]), .i_tvalid(ce_o_tvalid[0]), .i_tready(ce_o_tready[0]),\<newline>''
            @ ''  .o_tdata(ce_i_tdata[0]), .o_tlast(ce_i_tlast[0]), .o_tvalid(ce_i_tvalid[0]), .o_tready(ce_i_tready[0]),\<newline>''
            @ ''  .debug(ce_debug[0])\<newline>''
            @ '');\<newline>''
            @ ''\<newline>''
            @ ''noc_block_fft inst_fft2 (\<newline>''
            @ ''  .bus_clk(bus_clk), .bus_rst(bus_rst),\<newline>''
            @ ''  .ce_clk(ce_clk), .ce_rst(ce_rst),\<newline>''
            @ ''  .i_tdata(ce_o_tdata[1]), .i_tlast(ce_o_tlast[1]), .i_tvalid(ce_o_tvalid[1]), .i_tready(ce_o_tready[1]),\<newline>''
            @ ''  .o_tdata(ce_i_tdata[1]), .o_tlast(ce_i_tlast[1]), .o_tvalid(ce_i_tvalid[1]), .o_tready(ce_i_tready[1]),\<newline>''
            @ ''  .debug(ce_debug[1])\<newline>''
            @ '');\<newline>''
            @ ''\<newline>''
            @ ''// Fill remaining crossbar ports with loopback FIFOs\<newline>''
            @ ''genvar n;\<newline>''
            @ ''generate\<newline>''
            @ ''  for (n = 2; n < NUM_CE; n = n + 1) begin\<newline>''
            @ ''    noc_block_axi_fifo_loopback inst_noc_block_axi_fifo_loopback (\<newline>''
            @ ''      .bus_clk(bus_clk), .bus_rst(bus_rst),\<newline>''
            @ ''      .ce_clk(ce_clk), .ce_rst(ce_rst),\<newline>''
            @ ''      .i_tdata(ce_o_tdata[n]), .i_tlast(ce_o_tlast[n]), .i_tvalid(ce_o_tvalid[n]), .i_tready(ce_o_tready[n]),\<newline>''
            @ ''      .o_tdata(ce_i_tdata[n]), .o_tlast(ce_i_tlast[n]), .o_tvalid(ce_i_tvalid[n]), .o_tready(ce_i_tready[n]),\<newline>''
            @ ''      .debug(ce_debug[n])\<newline>''
            @ ''    );\<newline>''
            @ ''  end\<newline>''
            @ ''endgenerate\<newline>'')"
  using create_vfiles_renders [of "default_args\<lparr>blocks := [''fft'', ''fft''], fill_with_fifos := True\<rparr>" "sample_world [] [] 0"]
  by (simp add: default_args_def str_int_def str_nat.simps digit_char_def numeral_2_eq_2 upt_rec)

text \<open>
  Claim C1. The instance names are not always pairwise distinct: for the blocks \<open>fft\<close>,
  \<open>fft\<close>, \<open>fft2\<close> the second \<open>fft\<close> and the first \<open>fft2\<close> are both named
  \<open>inst_fft2\<close>, and the rendered text instantiates both under that name.
\<close>

theorem duplicate_instance_names:
  "(case create_vfiles_loop (default_args\<lparr>blocks := [''fft'', ''fft'', ''fft2'']\<rparr>)
           (sample_world [] [] 0) of
      Inl e \<Rightarrow> []
    | Inr s \<Rightarrow> instnames s) = [''inst_fft'', ''inst_fft2'', ''inst_fft2'']
   \<and> \<not> distinct [''inst_fft'', ''inst_fft2'', ''inst_fft2'']
   \<and> fst (create_vfiles (default_args\<lparr>blocks := [''fft'', ''fft'', ''fft2'']\<rparr>)
             (sample_world [] [] 0)) =
       Inr (HEADER_TMPL 3 @ BLOCK_TMPL ''fft'' ''inst_fft'' 0 @ BLOCK_TMPL ''fft'' ''inst_fft2'' 1
            @ BLOCK_TMPL ''fft2'' ''inst_fft2'' 2)"
  by (simp add: create_vfiles_def create_vfiles_loop_def default_args_def initial_count_def
        instname_format_def str_int_def str_nat.simps digit_char_def Let_def enumerate_eq_zip
        upt_rec)

section \<open>Validation\<close>

text \<open>
  Claim C3. With an empty block list, or with more blocks than \<open>max_num_blocks\<close>, the
  process prints one error message and ends with status 1; nothing but the output stream has
  changed, so no file was written.
\<close>

theorem invalid_block_list_exits_1:
  assumes "blocks a = [] \<or> max_num_blocks a < int (length (blocks a))"
  shows "script a w =
           (1, py_print (if blocks a = [] then ''[GEN_RFNOC_INST ERROR] No blocks specified!''
                         else ''[GEN_RFNOC_INST ERROR] Trying to connect ''
                              @ str_int (int (length (blocks a)))
                              @ '' blocks, max is '' @ str_int (max_num_blocks a)) w)
         \<and> files (snd (script a w)) = files w"
  using assms
  by (auto simp: script_def main_def create_vfiles_def exit_status_def py_print_def)

theorem invalid_block_list_exits_1_witness:
  "(blocks (default_args\<lparr>blocks := [''fft'', ''ddc''], max_num_blocks := 1\<rparr>) = []
    \<or> max_num_blocks (default_args\<lparr>blocks := [''fft'', ''ddc''], max_num_blocks := 1\<rparr>)
        < int (length (blocks (default_args\<lparr>blocks := [''fft'', ''ddc''], max_num_blocks := 1\<rparr>))))
   \<and> fst (script (default_args\<lparr>blocks := [''fft'', ''ddc''], max_num_blocks := 1\<rparr>)
             (sample_world [] [] 0)) = 1
   \<and> stdout (snd (script (default_args\<lparr>blocks := [''fft'', ''ddc''], max_num_blocks := 1\<rparr>)
                    (sample_world [] [] 0))) =
       [''[GEN_RFNOC_INST ERROR] Trying to connect 2 blocks, max is 1'']
   \<and> files (snd (script (default_args\<lparr>blocks := [''fft'', ''ddc''], max_num_blocks := 1\<rparr>)
                   (sample_world [] [] 0))) = files (sample_world [] [] 0)"
  using invalid_block_list_exits_1
    [of "default_args\<lparr>blocks := [''fft'', ''ddc''], max_num_blocks := 1\<rparr>" "sample_world [] [] 0"]
  by (simp add: default_args_def sample_world_def py_print_def str_int_def str_nat.simps
        digit_char_def)

section \<open>Devices\<close>

text \<open>
  Claim C10. \<open>device_dict\<close> maps \<open>e300\<close> to the directory \<open>e300\<close>, but with the device
  \<open>e300\<close> and no target \<open>dtarget\<close> raises \<open>KeyError\<close>; with the devices \<open>x300\<close>,
  \<open>x310\<close> and \<open>e310\<close> and no target it returns the default target.
\<close>

theorem e300_has_no_default_target:
  "device_dict ''e300'' = Inr ''e300''
   \<and> dtarget (a\<lparr>device := ''e300'', target := None\<rparr>) = Inl KeyError
   \<and> dtarget (a\<lparr>device := ''x300'', target := None\<rparr>) = Inr ''X300_RFNOC_HG''
   \<and> dtarget (a\<lparr>device := ''x310'', target := None\<rparr>) = Inr ''X310_RFNOC_HG''
   \<and> dtarget (a\<lparr>device := ''e310'', target := None\<rparr>) = Inr ''E310_RFNOC_HLS''"
  by (simp add: device_dict_def dtarget_def)

section \<open>Paths of the sample inputs\<close>

lemma endswith_char: "suffix [c] p \<longleftrightarrow> p \<noteq> [] \<and> last p = c"
  by (cases p rule: rev_cases) auto

lemma sample_dest_path:
  "path_join ''/fpga/usrp3/tools/scripts'' [''..'', ''..'', ''top'', ''x300'', ''Makefile.srcs'']
     = sample_dest"
  by (simp add: endswith_char sample_dest_def)

lemma sample_build_dir:
  "path_join ''/fpga/usrp3/tools/scripts'' [''..'', ''..'', ''top'', ''x300'']
     = ''/fpga/usrp3/tools/scripts/../../top/x300''"
  by (simp add: endswith_char)

lemma sample_oot_path: "path_join ''/oot/'' [''Makefile.srcs''] = ''/oot/Makefile.srcs''"
  by (simp add: endswith_char)

lemmas sample_paths = sample_dest_path sample_build_dir sample_oot_path

text \<open>
  Claim C4. A directory without verilog files does not end the process with status 1:
  \<open>checkdir_v\<close> prints its error and calls \<open>exit(0)\<close>. Here \<open>/oot/\<close> is given with
  \<open>-I\<close> and \<open>glob\<close> finds nothing in it.
\<close>

theorem missing_verilog_exits_0:
  "fst (script oot_args ((sample_world [] [] 0)\<lparr>glob := (\<lambda>p. [])\<rparr>)) = 0
   \<and> last (stdout (snd (script oot_args ((sample_world [] [] 0)\<lparr>glob := (\<lambda>p. [])\<rparr>)))) =
       ''[ERROR] No verilog files found in the given directory''"
  by (simp add: script_def main_def create_vfiles_def create_vfiles_loop_closed
        file_generator_def append_item_into_file_def checkdir_v_def device_dict_def
        lower_def lower_char_def exit_status_def py_print_def write_file_def
        oot_args_def default_args_def sample_world_def Let_def
        sample_paths del: path_join.simps)

section \<open>The include merge\<close>

lemma replace_scan_unchanged: "new = old \<Longrightarrow> replace_scan old new s = s"
proof (induction old new s rule: replace_scan.induct)
  case (1 old new)
  then show ?case by simp
next
  case (2 old new c cs)
  show ?case
  proof (cases "old \<noteq> [] \<and> prefix old (c # cs)")
    case True
    then obtain zs where zs: "c # cs = old @ zs" by (auto simp: prefix_def)
    have "replace_scan old new (c # cs) = new @ replace_scan old new (drop (length old) (c # cs))"
      using True by simp
    also have "\<dots> = old @ drop (length old) (c # cs)"
      using 2 True by simp
    also have "\<dots> = c # cs"
      unfolding zs by simp
    finally show ?thesis .
  next
    case False
    then show ?thesis using 2 by auto
  qed
qed

lemma replace_same: "replace s old old = s"
proof (cases "old = []")
  case True
  have "concat (map (\<lambda>c. [c]) s) = s" by (induction s) simp_all
  then show ?thesis using True by (simp add: replace_def)
next
  case False
  then show ?thesis by (simp add: replace_def replace_scan_unchanged)
qed

lemma filter_present_lines: "set xs \<subseteq> set ys \<Longrightarrow> filter (\<lambda>item. item \<notin> set ys) xs = []"
  by (induction xs) auto

lemma include_loop_noop:
  assumes "files w (path_join (scriptpath w) [''..'', ''..'', ''top'', td, ''Makefile.srcs''])
             = Some oldfile"
    and "\<forall>d \<in> set ds. glob w (d @ ''*.v'') \<noteq> []
           \<and> findall_escaped (prefix_text d) oldfile \<noteq> []
           \<and> (\<exists>c. files w (path_join d [''Makefile.srcs'']) = Some c
                  \<and> set (readlines c) \<subseteq> set (readlines oldfile))"
  shows "include_loop td ds w =
           (Inr (), w\<lparr>stdout := stdout w @ replicate (length ds) ''Verilog sources found!''\<rparr>)"
  using assms
proof (induction ds arbitrary: w)
  case Nil
  then show ?case by simp
next
  case (Cons d ds)
  let ?w1 = "py_print ''Verilog sources found!'' w"
  let ?dest = "path_join (scriptpath w) [''..'', ''..'', ''top'', td, ''Makefile.srcs'']"
  from Cons.prems(2) obtain c where
    g: "glob w (d @ ''*.v'') \<noteq> []" and
    p: "findall_escaped (prefix_text d) oldfile \<noteq> []" and
    c: "files w (path_join d [''Makefile.srcs'']) = Some c" and
    sub: "set (readlines c) \<subseteq> set (readlines oldfile)"
    by auto
  have chk: "checkdir_v d w = (Inr (), ?w1)"
    using g by (simp add: checkdir_v_def)
  have cmp: "compare (path_join d [''Makefile.srcs'']) ?dest ?w1 = Inr []"
    using c Cons.prems(1) sub
    by (simp add: compare_def py_print_def filter_present_lines del: path_join.simps)
  have wr: "write_file ?dest oldfile ?w1 = ?w1"
    using Cons.prems(1) by (simp add: write_file_def py_print_def map_upd_triv del: path_join.simps)
  have step: "include_loop td (d # ds) w = include_loop td ds ?w1"
    using chk cmp p Cons.prems(1) wr
    by (simp add: Let_def replace_same py_print_def del: path_join.simps)
  have "include_loop td ds ?w1 =
          (Inr (), ?w1\<lparr>stdout := stdout ?w1 @ replicate (length ds) ''Verilog sources found!''\<rparr>)"
    using Cons.prems by (intro Cons.IH) (simp_all add: py_print_def del: path_join.simps)
  then show ?case
    unfolding step by (simp add: py_print_def)
qed

text \<open>
  Claim C5. The entries are not put after the last anchor line only: \<open>str.replace\<close> rewrites
  every occurrence of the anchor text, so a destination list with two anchor lines gets the
  entries after both.
\<close>

theorem inserted_after_every_anchor:
  "findall_escaped line_text (line_text @ ''a.v'' @ nl @ line_text @ ''b.v'' @ nl)
     = [line_text, line_text]
   \<and> findall_escaped (prefix_text ''/oot/'') (line_text @ ''a.v'' @ nl @ line_text @ ''b.v'' @ nl)
     = []
   \<and> files (snd (append_item_into_file oot_args
                 (sample_world (line_text @ ''a.v'' @ nl @ line_text @ ''b.v'' @ nl)
                    (''x.v'' @ nl) 0))) sample_dest =
     Some (line_text @ ''x.v'' @ nl @ ''a.v'' @ nl @ line_text @ ''x.v'' @ nl @ ''b.v'' @ nl)"
  by (simp add: append_item_into_file_def checkdir_v_def device_dict_def
        lower_def lower_char_def py_print_def write_file_def readfile_def readlines_def
        findall_escaped_def replace_def prefix_text_def line_text_def nl_def bslash_def
        oot_args_def default_args_def sample_world_def sample_dest_def Let_def
        sample_paths del: path_join.simps)

text \<open>
  Claim C6, as stated, fails: a source list without the \<open>$(addprefix\<close> line of its directory
  is merged a second time although the destination list already holds every line of it.
\<close>

theorem second_merge_inserts_again:
  "files (snd (append_item_into_file oot_args (sample_world line_text (''x.v'' @ nl) 0)))
     sample_dest = Some (line_text @ ''x.v'' @ nl)
   \<and> set (readlines (''x.v'' @ nl)) \<subseteq> set (readlines (line_text @ ''x.v'' @ nl))
   \<and> files (snd (append_item_into_file oot_args
                   (snd (append_item_into_file oot_args
                           (sample_world line_text (''x.v'' @ nl) 0))))) sample_dest
       = Some (line_text @ ''x.v'' @ nl @ ''x.v'' @ nl)
   \<and> line_text @ ''x.v'' @ nl @ ''x.v'' @ nl \<noteq> line_text @ ''x.v'' @ nl"
  by (simp add: append_item_into_file_def checkdir_v_def device_dict_def
        lower_def lower_char_def py_print_def write_file_def readfile_def readlines_def
        findall_escaped_def replace_def prefix_text_def line_text_def nl_def bslash_def
        oot_args_def default_args_def sample_world_def sample_dest_def Let_def
        sample_paths del: path_join.simps)

text \<open>
  Claim C6, amended. When the destination list already holds, for every include directory, the
  \<open>$(addprefix\<close> line of that directory and every line of the directory's source list, the
  merge returns normally and leaves every file as it was; it only prints that it found verilog
  sources.
\<close>

theorem merge_of_present_entries_is_noop:
  assumes "device_dict (lower (device a)) = Inr td"
    and "include_dir a = Some ds"
    and "files w (path_join (scriptpath w) [''..'', ''..'', ''top'', td, ''Makefile.srcs''])
           = Some oldfile"
    and "\<forall>d \<in> set ds. glob w (d @ ''*.v'') \<noteq> []
           \<and> findall_escaped (prefix_text d) oldfile \<noteq> []
           \<and> (\<exists>c. files w (path_join d [''Makefile.srcs'']) = Some c
                  \<and> set (readlines c) \<subseteq> set (readlines oldfile))"
  shows "append_item_into_file a w =
           (Inr (), w\<lparr>stdout := stdout w @ replicate (length ds) ''Verilog sources found!''\<rparr>)
         \<and> files (snd (append_item_into_file a w)) = files w"
  using assms(1,2) include_loop_noop [OF assms(3,4)]
  by (simp add: append_item_into_file_def)

theorem merge_of_present_entries_is_noop_witness:
  "device_dict (lower (device oot_args)) = Inr ''x300''
   \<and> include_dir oot_args = Some [''/oot/'']
   \<and> files (sample_world (line_text @ prefix_text ''/oot/'' @ ''x.v'' @ nl)
               (prefix_text ''/oot/'' @ ''x.v'' @ nl) 0)
         (path_join (scriptpath (sample_world (line_text @ prefix_text ''/oot/'' @ ''x.v'' @ nl)
                                   (prefix_text ''/oot/'' @ ''x.v'' @ nl) 0))
            [''..'', ''..'', ''top'', ''x300'', ''Makefile.srcs''])
       = Some (line_text @ prefix_text ''/oot/'' @ ''x.v'' @ nl)
   \<and> files (snd (append_item_into_file oot_args
                   (sample_world (line_text @ prefix_text ''/oot/'' @ ''x.v'' @ nl)
                      (prefix_text ''/oot/'' @ ''x.v'' @ nl) 0)))
       = files (sample_world (line_text @ prefix_text ''/oot/'' @ ''x.v'' @ nl)
                  (prefix_text ''/oot/'' @ ''x.v'' @ nl) 0)"
proof -
  let ?w = "sample_world (line_text @ prefix_text ''/oot/'' @ ''x.v'' @ nl)
              (prefix_text ''/oot/'' @ ''x.v'' @ nl) 0"
  have dev: "device_dict (lower (device oot_args)) = Inr ''x300''"
    by (simp add: device_dict_def lower_def lower_char_def oot_args_def default_args_def)
  have inc: "include_dir oot_args = Some [''/oot/'']"
    by (simp add: oot_args_def default_args_def)
  have dest: "files ?w (path_join (scriptpath ?w) [''..'', ''..'', ''top'', ''x300'', ''Makefile.srcs''])
                = Some (line_text @ prefix_text ''/oot/'' @ ''x.v'' @ nl)"
    by (simp add: sample_world_def sample_paths sample_dest_def del: path_join.simps)
  have each: "\<forall>d \<in> set [''/oot/'']. glob ?w (d @ ''*.v'') \<noteq> []
           \<and> findall_escaped (prefix_text d) (line_text @ prefix_text ''/oot/'' @ ''x.v'' @ nl) \<noteq> []
           \<and> (\<exists>c. files ?w (path_join d [''Makefile.srcs'']) = Some c
                  \<and> set (readlines c) \<subseteq> set (readlines (line_text @ prefix_text ''/oot/'' @ ''x.v'' @ nl)))"
    by (simp add: sample_world_def sample_dest_def findall_escaped_def readlines_def
          prefix_text_def line_text_def nl_def bslash_def sample_paths del: path_join.simps)
  from merge_of_present_entries_is_noop [OF dev inc dest each] dev inc dest
  show ?thesis by simp
qed

text \<open>
  Claim C7, as stated, fails: with no anchor line in the destination list nothing is appended
  at its end; the file keeps its text.
\<close>

theorem no_anchor_leaves_file:
  "files (snd (append_item_into_file oot_args
                 (sample_world (''SRCS = a.v'' @ nl) (''x.v'' @ nl) 0))) sample_dest
     = Some (''SRCS = a.v'' @ nl)
   \<and> ''SRCS = a.v'' @ nl \<noteq> (''SRCS = a.v'' @ nl) @ (''x.v'' @ nl)
   \<and> findall_escaped line_text (''SRCS = a.v'' @ nl) = []"
  by (simp add: append_item_into_file_def checkdir_v_def device_dict_def
        lower_def lower_char_def py_print_def write_file_def readfile_def readlines_def
        findall_escaped_def replace_def prefix_text_def line_text_def nl_def bslash_def
        oot_args_def default_args_def sample_world_def sample_dest_def Let_def
        sample_paths del: path_join.simps)

text \<open>
  Claim C7, amended. When the destination list holds neither the \<open>$(addprefix\<close> line of the
  include directory nor the anchor line, the merge reports the missing pattern, returns, and
  leaves every file as it was.
\<close>

theorem no_pattern_reports_and_returns:
  assumes "device_dict (lower (device a)) = Inr td"
    and "include_dir a = Some (d # rest)"
    and "glob w (d @ ''*.v'') \<noteq> []"
    and "files w (path_join (scriptpath w) [''..'', ''..'', ''top'', td, ''Makefile.srcs''])
           = Some oldfile"
    and "findall_escaped (prefix_text d) oldfile = []"
    and "findall_escaped line_text oldfile = []"
  shows "append_item_into_file a w =
           (Inr (), py_print (''Pattern '' @ re_escape line_text
                              @ '' not found. Could not write '' @ oldfile @ '' file'')
                      (py_print ''Verilog sources found!'' w))
         \<and> files (snd (append_item_into_file a w)) = files w"
  using assms
  by (simp add: append_item_into_file_def checkdir_v_def py_print_def Let_def
        del: path_join.simps)

theorem no_pattern_reports_and_returns_witness:
  "device_dict (lower (device oot_args)) = Inr ''x300''
   \<and> include_dir oot_args = Some [''/oot/'']
   \<and> findall_escaped (prefix_text ''/oot/'') (''SRCS = a.v'' @ nl) = []
   \<and> findall_escaped line_text (''SRCS = a.v'' @ nl) = []
   \<and> fst (append_item_into_file oot_args
             (sample_world (''SRCS = a.v'' @ nl) (''x.v'' @ nl) 0)) = Inr ()
   \<and> files (snd (append_item_into_file oot_args
                   (sample_world (''SRCS = a.v'' @ nl) (''x.v'' @ nl) 0)))
       = files (sample_world (''SRCS = a.v'' @ nl) (''x.v'' @ nl) 0)"
proof -
  let ?w = "sample_world (''SRCS = a.v'' @ nl) (''x.v'' @ nl) 0"
  have dev: "device_dict (lower (device oot_args)) = Inr ''x300''"
    by (simp add: device_dict_def lower_def lower_char_def oot_args_def default_args_def)
  have inc: "include_dir oot_args = Some (''/oot/'' # [])"
    by (simp add: oot_args_def default_args_def)
  have g: "glob ?w (''/oot/'' @ ''*.v'') \<noteq> []"
    by (simp add: sample_world_def)
  have dest: "files ?w (path_join (scriptpath ?w) [''..'', ''..'', ''top'', ''x300'', ''Makefile.srcs''])
                = Some (''SRCS = a.v'' @ nl)"
    by (simp add: sample_world_def sample_paths sample_dest_def del: path_join.simps)
  have p: "findall_escaped (prefix_text ''/oot/'') (''SRCS = a.v'' @ nl) = []"
    by (simp add: findall_escaped_def prefix_text_def nl_def bslash_def)
  have l: "findall_escaped line_text (''SRCS = a.v'' @ nl) = []"
    by (simp add: findall_escaped_def line_text_def nl_def bslash_def)
  from no_pattern_reports_and_returns [OF dev inc g dest p l] dev inc p l
  show ?thesis by (simp add: py_print_def)
qed

section \<open>The build step\<close>

text \<open>
  What \<open>build\<close> does when the build directory exists and a target is found: the command is
  run in the build directory, its status is returned, and the working directory is set to the
  directory of the script.
\<close>

lemma build_runs_make:
  assumes "device_dict (lower (device a)) = Inr td"
    and "is_dir w (path_join (scriptpath w) [''..'', ''..'', ''top'', td])"
    and "dtarget a = Inr t"
  shows "build a w =
           (Inr (system_status w (path_join (scriptpath w) [''..'', ''..'', ''top'', td])
                   (''source ./setupenv.sh && make '' @ t @ (if GUI a then '' GUI=1'' else []))),
            w\<lparr>stdout := stdout w @ [''changing temporarily working directory to ''
                       @ path_join (scriptpath w) [''..'', ''..'', ''top'', td]],
              cwd := scriptpath w,
              commands := commands w @
                [(path_join (scriptpath w) [''..'', ''..'', ''top'', td],
                  ''source ./setupenv.sh && make '' @ t @ (if GUI a then '' GUI=1'' else []))]\<rparr>)"
  using assms
  by (simp add: build_def os_system_def chdir_def py_print_def Let_def del: path_join.simps)

text \<open>
  Claim C9. The build step does not return to the directory that was current before it: started
  from \<open>/home/user\<close>, the process ends in the directory of the script. The process ends with
  the low 8 bits of what \<open>os.system\<close> returned: 2 for the value 2, but 0 for the value 512,
  which is the wait status of a command that exits with 2.
\<close>

theorem build_ends_in_script_directory:
  "fst (script (default_args\<lparr>blocks := [''fft'']\<rparr>) (sample_world [] [] 2)) = 2
   \<and> commands (snd (script (default_args\<lparr>blocks := [''fft'']\<rparr>) (sample_world [] [] 2))) =
       [(''/fpga/usrp3/tools/scripts/../../top/x300'',
         ''source ./setupenv.sh && make X310_RFNOC_HG'')]
   \<and> cwd (sample_world [] [] 2) = ''/home/user''
   \<and> cwd (snd (script (default_args\<lparr>blocks := [''fft'']\<rparr>) (sample_world [] [] 2))) =
       ''/fpga/usrp3/tools/scripts''
   \<and> fst (script (default_args\<lparr>blocks := [''fft'']\<rparr>) (sample_world [] [] 512)) = 0"
  by (simp add: script_def main_def create_vfiles_def create_vfiles_loop_closed
        file_generator_def append_item_into_file_def build_def dtarget_def device_dict_def
        os_system_def chdir_def
        lower_def lower_char_def exit_status_def py_print_def write_file_def
        default_args_def sample_world_def Let_def
        sample_paths del: path_join.simps)


end
